theory Spec2Isabelle
  imports Main "HOL-Library.Multiset" "HOL-Library.Sublist" "HOL-Library.Word"
begin

section \<open>Errors\<close>

text \<open>
  Go errors are values. The three sentinels \<open>ErrInvalidScanType\<close>, \<open>ErrNotInFormat\<close> and
  \<open>ErrUnknownFormat\<close> and the wrapper \<open>grate.WrapErr\<close> are used by the functions below and
  declared elsewhere in package grate; \<open>errNotLoaded\<close> is a variable of package xlsx.
  Every other constructor stands for an error value that the functions below build:
  \<open>errors.New\<close> with its text, the two \<open>fmt.Errorf\<close> calls with their arguments, and
  the \<open>NumError\<close> of package strconv with the function, the text and the kind.
\<close>

datatype numErrKind = ErrSyntax | ErrRange

datatype error =
    ErrInvalidScanType
  | ErrNotInFormat
  | ErrUnknownFormat
  | WrapErr error error
  | errors_New string
  | NumError string string numErrKind
  | Errorf_expected_Scan_destinations int int
  | Errorf_stream_not_found string
  | errNotLoaded

text \<open>
  Modelled from the spec: the declarations of \<open>WrapErr\<close> and of the sentinels are not in
  the files verified. The spec calls \<open>NotInFormat\<close> a sentinel that is wrappable, a backend attaching a cause
  while the classification is preserved; \<open>errors.Is\<close> therefore looks through \<open>WrapErr\<close>
  and compares every other error by identity.
\<close>

fun errors_Is :: "error \<Rightarrow> error \<Rightarrow> bool" where
  "errors_Is (WrapErr c k) target = (errors_Is c target \<or> errors_Is k target)"
| "errors_Is e target = (e = target)"

section \<open>Package grate: the dispatch tables\<close>

text \<open>
  \<open>srcOpenTab\<close>, \<open>fileOpenTab\<close> and \<open>readerOpenTab\<close> are the same struct up to the type of
  the argument of \<open>op\<close>. A probe (\<open>OpenFunc\<close>, \<open>OpenFileFunc\<close>, \<open>OpenReaderFunc\<close>) returns
  the pair (Source, error); it is modelled by its outcome on the argument it is called
  with, \<open>Inr src\<close> when the error is nil and \<open>Inl err\<close> otherwise. The priority is a Go
  \<open>int\<close> that is only ever compared.
\<close>

record ('a, 's) openTab =
  name :: string
  pri :: int
  op :: "'a \<Rightarrow> error + 's"

type_synonym 's srcOpenTab = "(string, 's) openTab"
type_synonym ('f, 's) fileOpenTab = "('f, 's) openTab"
type_synonym ('r, 's) readerOpenTab = "('r, 's) openTab"

text \<open>
  The three \<open>Open\<close> functions walk their table in order. Beside the result, the loop
  of the model returns the entries whose probe was called, in call order: \<open>Open\<close> is
  the result and \<open>Open_tried\<close> the probes called. The lines that the source writes
  to the log when \<open>Debug\<close> is set are left out.
\<close>

fun Open_run :: "'s srcOpenTab list \<Rightarrow> string \<Rightarrow> (error + 's) \<times> 's srcOpenTab list" where
  "Open_run [] filename = (Inl ErrUnknownFormat, [])"
| "Open_run (o1 # os) filename =
     (case op o1 filename of
        Inr src \<Rightarrow> (Inr src, [o1])
      | Inl err \<Rightarrow>
          if \<not> errors_Is err ErrNotInFormat then (Inl err, [o1])
          else (case Open_run os filename of (res, tried) \<Rightarrow> (res, o1 # tried)))"

definition Open :: "'s srcOpenTab list \<Rightarrow> string \<Rightarrow> error + 's" where
  "Open srcTable filename = fst (Open_run srcTable filename)"

definition Open_tried :: "'s srcOpenTab list \<Rightarrow> string \<Rightarrow> 's srcOpenTab list" where
  "Open_tried srcTable filename = snd (Open_run srcTable filename)"

fun OpenFile_run :: "('f, 's) fileOpenTab list \<Rightarrow> 'f \<Rightarrow> (error + 's) \<times> ('f, 's) fileOpenTab list" where
  "OpenFile_run [] file = (Inl ErrUnknownFormat, [])"
| "OpenFile_run (o1 # os) file =
     (case op o1 file of
        Inr src \<Rightarrow> (Inr src, [o1])
      | Inl err \<Rightarrow>
          if \<not> errors_Is err ErrNotInFormat then (Inl err, [o1])
          else (case OpenFile_run os file of (res, tried) \<Rightarrow> (res, o1 # tried)))"

definition OpenFile :: "('f, 's) fileOpenTab list \<Rightarrow> 'f \<Rightarrow> error + 's" where
  "OpenFile fileTable file = fst (OpenFile_run fileTable file)"

definition OpenFile_tried :: "('f, 's) fileOpenTab list \<Rightarrow> 'f \<Rightarrow> ('f, 's) fileOpenTab list" where
  "OpenFile_tried fileTable file = snd (OpenFile_run fileTable file)"

fun OpenReader_run :: "('r, 's) readerOpenTab list \<Rightarrow> 'r \<Rightarrow> (error + 's) \<times> ('r, 's) readerOpenTab list" where
  "OpenReader_run [] reader = (Inl ErrUnknownFormat, [])"
| "OpenReader_run (o1 # os) reader =
     (case op o1 reader of
        Inr src \<Rightarrow> (Inr src, [o1])
      | Inl err \<Rightarrow>
          if \<not> errors_Is err ErrNotInFormat then (Inl err, [o1])
          else (case OpenReader_run os reader of (res, tried) \<Rightarrow> (res, o1 # tried)))"

definition OpenReader :: "('r, 's) readerOpenTab list \<Rightarrow> 'r \<Rightarrow> error + 's" where
  "OpenReader readerTable reader = fst (OpenReader_run readerTable reader)"

definition OpenReader_tried :: "('r, 's) readerOpenTab list \<Rightarrow> 'r \<Rightarrow> ('r, 's) readerOpenTab list" where
  "OpenReader_tried readerTable reader = snd (OpenReader_run readerTable reader)"

text \<open>A probe rejects its argument when its error is classified as \<open>ErrNotInFormat\<close>.\<close>

definition rejects :: "('a, 's) openTab \<Rightarrow> 'a \<Rightarrow> bool" where
  "rejects o1 a = (case op o1 a of Inl err \<Rightarrow> errors_Is err ErrNotInFormat | Inr src \<Rightarrow> False)"

subsection \<open>Registration\<close>

text \<open>
  \<open>Register\<close> appends an entry and sorts the table with \<open>sort.Slice\<close> under the comparison
  of priorities. \<open>sort.Slice\<close> is part of the Go library; it is a parameter here. Its
  documentation promises a slice sorted under \<open>less\<close> holding the same elements, and
  says that the sort is not guaranteed to be stable.
\<close>

definition pri_less :: "('a, 's) openTab \<Rightarrow> ('a, 's) openTab \<Rightarrow> bool" where
  "pri_less x y = (pri x < pri y)"

definition sort_Slice_spec ::
    "((('a, 's) openTab \<Rightarrow> ('a, 's) openTab \<Rightarrow> bool) \<Rightarrow> ('a, 's) openTab list \<Rightarrow> ('a, 's) openTab list) \<Rightarrow> bool" where
  "sort_Slice_spec sort_Slice =
     (\<forall>xs. mset (sort_Slice pri_less xs) = mset xs
         \<and> sorted_wrt (\<lambda>x y. \<not> pri_less y x) (sort_Slice pri_less xs))"

definition Register ::
    "(('s srcOpenTab \<Rightarrow> 's srcOpenTab \<Rightarrow> bool) \<Rightarrow> 's srcOpenTab list \<Rightarrow> 's srcOpenTab list)
     \<Rightarrow> string \<Rightarrow> int \<Rightarrow> (string \<Rightarrow> error + 's) \<Rightarrow> 's srcOpenTab list
     \<Rightarrow> error option \<times> 's srcOpenTab list" where
  "Register sort_Slice nm priority opener srcTable =
     (None, sort_Slice pri_less (srcTable @ [\<lparr>name = nm, pri = priority, op = opener\<rparr>]))"

definition RegisterFile ::
    "((('f, 's) fileOpenTab \<Rightarrow> ('f, 's) fileOpenTab \<Rightarrow> bool) \<Rightarrow> ('f, 's) fileOpenTab list \<Rightarrow> ('f, 's) fileOpenTab list)
     \<Rightarrow> string \<Rightarrow> int \<Rightarrow> ('f \<Rightarrow> error + 's) \<Rightarrow> ('f, 's) fileOpenTab list
     \<Rightarrow> error option \<times> ('f, 's) fileOpenTab list" where
  "RegisterFile sort_Slice nm priority opener fileTable =
     (None, sort_Slice pri_less (fileTable @ [\<lparr>name = nm, pri = priority, op = opener\<rparr>]))"

definition RegisterReader ::
    "((('r, 's) readerOpenTab \<Rightarrow> ('r, 's) readerOpenTab \<Rightarrow> bool) \<Rightarrow> ('r, 's) readerOpenTab list \<Rightarrow> ('r, 's) readerOpenTab list)
     \<Rightarrow> string \<Rightarrow> int \<Rightarrow> ('r \<Rightarrow> error + 's) \<Rightarrow> ('r, 's) readerOpenTab list
     \<Rightarrow> error option \<times> ('r, 's) readerOpenTab list" where
  "RegisterReader sort_Slice nm priority opener readerTable =
     (None, sort_Slice pri_less (readerTable @ [\<lparr>name = nm, pri = priority, op = opener\<rparr>]))"

text \<open>
  The tables start empty; a table the program can hold is the result of a sequence of
  calls, each given by the name, the priority and the probe it registers.
\<close>

definition Register_calls ::
    "(('s srcOpenTab \<Rightarrow> 's srcOpenTab \<Rightarrow> bool) \<Rightarrow> 's srcOpenTab list \<Rightarrow> 's srcOpenTab list)
     \<Rightarrow> (string \<times> int \<times> (string \<Rightarrow> error + 's)) list \<Rightarrow> 's srcOpenTab list" where
  "Register_calls sort_Slice calls =
     foldl (\<lambda>srcTable (nm, priority, opener). snd (Register sort_Slice nm priority opener srcTable)) [] calls"

definition RegisterFile_calls ::
    "((('f, 's) fileOpenTab \<Rightarrow> ('f, 's) fileOpenTab \<Rightarrow> bool) \<Rightarrow> ('f, 's) fileOpenTab list \<Rightarrow> ('f, 's) fileOpenTab list)
     \<Rightarrow> (string \<times> int \<times> ('f \<Rightarrow> error + 's)) list \<Rightarrow> ('f, 's) fileOpenTab list" where
  "RegisterFile_calls sort_Slice calls =
     foldl (\<lambda>fileTable (nm, priority, opener). snd (RegisterFile sort_Slice nm priority opener fileTable)) [] calls"

definition RegisterReader_calls ::
    "((('r, 's) readerOpenTab \<Rightarrow> ('r, 's) readerOpenTab \<Rightarrow> bool) \<Rightarrow> ('r, 's) readerOpenTab list \<Rightarrow> ('r, 's) readerOpenTab list)
     \<Rightarrow> (string \<times> int \<times> ('r \<Rightarrow> error + 's)) list \<Rightarrow> ('r, 's) readerOpenTab list" where
  "RegisterReader_calls sort_Slice calls =
     foldl (\<lambda>readerTable (nm, priority, opener). snd (RegisterReader sort_Slice nm priority opener readerTable)) [] calls"

text \<open>The entries in the order of the calls that registered them.\<close>

definition entries :: "(string \<times> int \<times> ('a \<Rightarrow> error + 's)) list \<Rightarrow> ('a, 's) openTab list" where
  "entries calls = map (\<lambda>(nm, priority, opener). \<lparr>name = nm, pri = priority, op = opener\<rparr>) calls"

subsection \<open>Two sorting procedures that meet the contract of \<open>sort.Slice\<close>\<close>

text \<open>
  For evaluation on concrete tables, the two procedures that \<open>sort.Slice\<close> has run on
  slices of at most twelve elements. \<open>insertionSort\<close> (the library since Go 1.19) moves
  each element towards the front while it is less than its left neighbour; the sorted
  part is kept back to front in \<open>insertionSort_inner\<close>. \<open>shellInsertionSort\<close> (the
  library up to Go 1.18) first makes one pass that swaps elements six places apart
  when they are out of order, and then sorts by insertion. Both sort lists of any
  length and meet the contract.
\<close>

fun insertionSort_inner :: "('e \<Rightarrow> 'e \<Rightarrow> bool) \<Rightarrow> 'e \<Rightarrow> 'e list \<Rightarrow> 'e list" where
  "insertionSort_inner lessf x [] = [x]"
| "insertionSort_inner lessf x (y # ys) =
     (if lessf x y then y # insertionSort_inner lessf x ys else x # y # ys)"

definition insertionSort :: "('e \<Rightarrow> 'e \<Rightarrow> bool) \<Rightarrow> 'e list \<Rightarrow> 'e list" where
  "insertionSort lessf xs = rev (foldl (\<lambda>pre x. insertionSort_inner lessf x pre) [] xs)"

definition swap :: "'e list \<Rightarrow> nat \<Rightarrow> nat \<Rightarrow> 'e list" where
  "swap xs i j = xs[i := xs ! j, j := xs ! i]"

definition shellPass :: "('e \<Rightarrow> 'e \<Rightarrow> bool) \<Rightarrow> 'e list \<Rightarrow> 'e list" where
  "shellPass lessf xs =
     foldl (\<lambda>ys i. if lessf (ys ! i) (ys ! (i - 6)) then swap ys i (i - 6) else ys) xs [6 ..< length xs]"

definition shellInsertionSort :: "('e \<Rightarrow> 'e \<Rightarrow> bool) \<Rightarrow> 'e list \<Rightarrow> 'e list" where
  "shellInsertionSort lessf xs =
     (if 1 < length xs then insertionSort lessf (shellPass lessf xs) else xs)"

text \<open>The entries of one priority, in the order of the table.\<close>

definition with_pri :: "int \<Rightarrow> ('a, 's) openTab list \<Rightarrow> ('a, 's) openTab list" where
  "with_pri p tbl = filter (\<lambda>e. pri e = p) tbl"

text \<open>A sort is stable on priorities when it keeps the order of the entries of each priority.\<close>

definition stable_on_pri ::
    "((('a, 's) openTab \<Rightarrow> ('a, 's) openTab \<Rightarrow> bool) \<Rightarrow> ('a, 's) openTab list \<Rightarrow> ('a, 's) openTab list) \<Rightarrow> bool" where
  "stable_on_pri sort_Slice =
     (\<forall>p xs. filter (\<lambda>e. pri e = p) (sort_Slice pri_less xs) = filter (\<lambda>e. pri e = p) xs)"

subsection \<open>What the dispatch loop is required to do\<close>

text \<open>
  \<open>dispatches opn tried tbl a\<close> says of an open function \<open>opn\<close> and of the probes
  \<open>tried\<close> that it calls, on the table \<open>tbl\<close> and the argument \<open>a\<close>: the probes called are
  an initial segment of the table; the first probe that does not reject decides the
  outcome, its Source or its error being returned with no later probe called; when
  every probe rejects, all were called and the result is \<open>ErrUnknownFormat\<close>.
\<close>

definition dispatches ::
    "(('a, 's) openTab list \<Rightarrow> 'a \<Rightarrow> error + 's)
     \<Rightarrow> (('a, 's) openTab list \<Rightarrow> 'a \<Rightarrow> ('a, 's) openTab list)
     \<Rightarrow> ('a, 's) openTab list \<Rightarrow> 'a \<Rightarrow> bool" where
  "dispatches opn tried tbl a =
     (prefix (tried tbl a) tbl
      \<and> (\<forall>before o1 after src.
            tbl = before @ o1 # after \<and> (\<forall>p \<in> set before. rejects p a) \<and> op o1 a = Inr src
            \<longrightarrow> opn tbl a = Inr src \<and> tried tbl a = before @ [o1])
      \<and> (\<forall>before o1 after err.
            tbl = before @ o1 # after \<and> (\<forall>p \<in> set before. rejects p a)
              \<and> op o1 a = Inl err \<and> \<not> errors_Is err ErrNotInFormat
            \<longrightarrow> opn tbl a = Inl err \<and> tried tbl a = before @ [o1])
      \<and> ((\<forall>p \<in> set tbl. rejects p a)
            \<longrightarrow> opn tbl a = Inl ErrUnknownFormat \<and> tried tbl a = tbl))"

subsection \<open>Probes for concrete evaluations\<close>

text \<open>
  Three probes with fixed outcomes: one that rejects with a wrapped \<open>ErrNotInFormat\<close>, one
  that returns a Source, and one that fails with another error.
\<close>

definition probe_rejecting :: "'a \<Rightarrow> error + nat" where
  "probe_rejecting a = Inl (WrapErr (errors_New ''zip: not a valid zip file'') ErrNotInFormat)"

definition probe_accepting :: "'a \<Rightarrow> error + nat" where
  "probe_accepting a = Inr 7"

definition probe_failing :: "'a \<Rightarrow> error + nat" where
  "probe_failing a = Inl (errors_New ''open: permission denied'')"

section \<open>Package simple: the delimited-text backend\<close>

record simpleFile =
  filename :: string
  rows :: "string list list"
  iterRow :: int

text \<open>
  \<open>filepath.Base\<close> of the Go library with \<open>/\<close> as the separator: the last element of
  the path once trailing separators are removed, \<open>.\<close> for the empty path and \<open>/\<close> for a
  path of separators only.
\<close>

definition filepath_Base :: "string \<Rightarrow> string" where
  "filepath_Base path =
     (if path = [] then ''.''
      else let stripped = rev (dropWhile (\<lambda>c. c = CHR ''/'') (rev path));
               base = rev (takeWhile (\<lambda>c. c \<noteq> CHR ''/'') (rev stripped))
           in if base = [] then ''/'' else base)"

definition simple_List :: "simpleFile \<Rightarrow> string list \<times> error option" where
  "simple_List t = ([filepath_Base (filename t)], None)"

definition simple_Close :: "simpleFile \<Rightarrow> error option" where
  "simple_Close t = None"

text \<open>\<open>Get\<close> returns the file itself as the Collection, with a nil error.\<close>

definition simple_Get :: "simpleFile \<Rightarrow> string \<Rightarrow> simpleFile option \<times> error option" where
  "simple_Get t nm = (Some t, None)"

text \<open>A Go \<open>int\<close> of 64 bits: the increment of the cursor wraps around.\<close>

definition wrap_int64 :: "int \<Rightarrow> int" where
  "wrap_int64 x = (x + 2 ^ 63) mod 2 ^ 64 - 2 ^ 63"

definition simple_Next :: "simpleFile \<Rightarrow> bool \<times> simpleFile" where
  "simple_Next t =
     (let t' = t\<lparr>iterRow := wrap_int64 (iterRow t + 1)\<rparr>
      in (iterRow t' < int (length (rows t')), t'))"

text \<open>
  \<open>t.rows[t.iterRow]\<close>: an index outside the slice panics, which is \<open>None\<close> here and in
  every function that reads the current row.
\<close>

definition current_row :: "simpleFile \<Rightarrow> string list option" where
  "current_row t =
     (if 0 \<le> iterRow t \<and> iterRow t < int (length (rows t))
      then Some (rows t ! nat (iterRow t)) else None)"

definition simple_Strings :: "simpleFile \<Rightarrow> string list option" where
  "simple_Strings t = current_row t"

definition simple_Formats :: "simpleFile \<Rightarrow> string list option" where
  "simple_Formats t =
     (case current_row t of None \<Rightarrow> None
      | Some row \<Rightarrow> Some (map (\<lambda>i. ''General'') [0 ..< length row]))"

definition simple_Types :: "simpleFile \<Rightarrow> string list option" where
  "simple_Types t =
     (case current_row t of None \<Rightarrow> None
      | Some row \<Rightarrow> Some (map (\<lambda>v. if v = [] then ''blank'' else ''string'') row))"

definition simple_IsEmpty :: "simpleFile \<Rightarrow> bool" where
  "simple_IsEmpty t = (length (rows t) = 0)"

definition simple_Err :: "simpleFile \<Rightarrow> error option" where
  "simple_Err t = None"

subsection \<open>Scan\<close>

text \<open>
  An argument of \<open>Scan\<close> is an \<open>interface{}\<close> value; the type switch tells six cases
  apart. A pointer carries the value of the variable it points to, so that a write is
  visible in the list of arguments that the model returns. \<open>Ptr_time\<close> stands for a
  \<open>*time.Time\<close> and \<open>Other_arg\<close> for a value of any type that the switch does not name
  (the string is its type); their targets are never read or written. \<open>Ptr_int64\<close> is
  a \<open>*int64\<close>, which the switch does not name either.
\<close>

datatype 'fl arg =
    Ptr_bool bool
  | Ptr_int int
  | Ptr_float64 'fl
  | Ptr_string string
  | Ptr_time
  | Ptr_int64 int
  | Other_arg string

text \<open>
  \<open>strings.ToLower\<close> on bytes: the letters A to Z are mapped and nothing else. The
  result is only compared with words of ASCII letters and digits, and no character
  outside ASCII has one of their letters as its lower case.
\<close>

definition strings_ToLower :: "string \<Rightarrow> string" where
  "strings_ToLower s =
     map (\<lambda>c. if 65 \<le> (of_char c :: nat) \<and> (of_char c :: nat) \<le> 90
               then char_of ((of_char c :: nat) + 32) else c) s"

text \<open>
  \<open>strconv.ParseInt(s, 10, 64)\<close> of the Go library, as documented: an optional sign and
  decimal digits; an empty string or a character that is no digit gives \<open>ErrSyntax\<close>
  and the value 0, a value outside 64 bits gives \<open>ErrRange\<close> and the nearest bound.
  The error is a \<open>NumError\<close> with the name of the function and the text given.
\<close>

definition maxUint64 :: nat where
  "maxUint64 = 2 ^ 64 - 1"

fun ParseUint_loop :: "nat \<Rightarrow> string \<Rightarrow> numErrKind + nat" where
  "ParseUint_loop n [] = Inr n"
| "ParseUint_loop n (c # cs) =
     (if \<not> (48 \<le> (of_char c :: nat) \<and> (of_char c :: nat) \<le> 57) then Inl ErrSyntax
      else let n1 = n * 10 + ((of_char c :: nat) - 48)
           in if n1 > maxUint64 then Inl ErrRange else ParseUint_loop n1 cs)"

definition ParseUint :: "string \<Rightarrow> nat \<times> numErrKind option" where
  "ParseUint s =
     (if s = [] then (0, Some ErrSyntax)
      else case ParseUint_loop 0 s of
             Inl ErrSyntax \<Rightarrow> (0, Some ErrSyntax)
           | Inl ErrRange \<Rightarrow> (maxUint64, Some ErrRange)
           | Inr n \<Rightarrow> (n, None))"

definition ParseInt :: "string \<Rightarrow> int \<times> error option" where
  "ParseInt s =
     (if s = [] then (0, Some (NumError ''ParseInt'' s ErrSyntax))
      else let neg = (hd s = CHR ''-'');
               s1 = (if hd s = CHR ''+'' \<or> hd s = CHR ''-'' then tl s else s)
           in case ParseUint s1 of (un, err) \<Rightarrow>
                if err = Some ErrSyntax then (0, Some (NumError ''ParseInt'' s ErrSyntax))
                else if \<not> neg \<and> un \<ge> 2 ^ 63 then (2 ^ 63 - 1, Some (NumError ''ParseInt'' s ErrRange))
                else if neg \<and> un > 2 ^ 63 then (- (2 ^ 63), Some (NumError ''ParseInt'' s ErrRange))
                else (if neg then - int un else int un, None))"

text \<open>
  One turn of the loop of \<open>Scan\<close>: the argument after the write and the value of \<open>err\<close>
  after the switch. \<open>strconv.ParseFloat\<close> is a parameter, a function from the text to
  the pair it returns. The conversion \<open>int(n)\<close> keeps the value, \<open>int\<close> having 64 bits.
\<close>

definition scanArg :: "(string \<Rightarrow> 'fl \<times> error option) \<Rightarrow> string \<Rightarrow> 'fl arg \<Rightarrow> 'fl arg \<times> error option" where
  "scanArg ParseFloat cell a =
     (case a of
        Ptr_bool v \<Rightarrow>
          (Ptr_bool (strings_ToLower cell \<in> set [''1'', ''t'', ''true'', ''y'', ''yes'']), None)
      | Ptr_int v \<Rightarrow> (case ParseInt cell of (n, err) \<Rightarrow> (Ptr_int n, err))
      | Ptr_float64 v \<Rightarrow> (case ParseFloat cell of (x, err) \<Rightarrow> (Ptr_float64 x, err))
      | Ptr_string v \<Rightarrow> (Ptr_string cell, None)
      | Ptr_time \<Rightarrow>
          (Ptr_time, Some (errors_New ''grate/simple: time.Time not supported, you must parse date strings manually''))
      | Ptr_int64 v \<Rightarrow> (Ptr_int64 v, Some ErrInvalidScanType)
      | Other_arg ty \<Rightarrow> (Other_arg ty, Some ErrInvalidScanType))"

fun Scan_loop ::
    "(string \<Rightarrow> 'fl \<times> error option) \<Rightarrow> string list \<Rightarrow> nat \<Rightarrow> 'fl arg list \<Rightarrow> error option \<times> 'fl arg list" where
  "Scan_loop ParseFloat row i [] = (None, [])"
| "Scan_loop ParseFloat row i (a # as) =
     (case scanArg ParseFloat (row ! i) a of
        (a', Some err) \<Rightarrow> (Some err, a' # as)
      | (a', None) \<Rightarrow>
          (case Scan_loop ParseFloat row (Suc i) as of (res, as') \<Rightarrow> (res, a' # as')))"

text \<open>The result of \<open>Scan\<close> is its error and the arguments as it leaves them.\<close>

definition simple_Scan ::
    "(string \<Rightarrow> 'fl \<times> error option) \<Rightarrow> simpleFile \<Rightarrow> 'fl arg list \<Rightarrow> (error option \<times> 'fl arg list) option" where
  "simple_Scan ParseFloat t args =
     (case current_row t of None \<Rightarrow> None
      | Some row \<Rightarrow>
          Some (if length row \<noteq> length args
                then (Some (Errorf_expected_Scan_destinations (int (length row)) (int (length args))), args)
                else Scan_loop ParseFloat row 0 args))"

section \<open>Package xlsx\<close>

text \<open>
  A Sheet has more fields than the three that \<open>Get\<close> touches; its declaration and
  \<open>parseSheet\<close> are in another file of the package, and \<open>parseSheet\<close> is a parameter
  that returns its error and the sheet as it leaves it. \<open>errNotLoaded\<close> is the error value
  that marks a sheet not yet parsed. The fields \<open>name\<close> and \<open>err\<close> of the source are
  \<open>sheet_name\<close> and \<open>sheet_err\<close> here, and \<open>f\<close> and \<open>r\<close> of the Document are \<open>doc_f\<close> and
  \<open>doc_r\<close>; of the Document, the fields that the functions below use are kept.
\<close>

record 'c Sheet =
  sheet_name :: string
  sheet_err :: "error option"
  wrapped :: "'c option"

record ('cl, 'z, 'c) Document =
  doc_f :: "'cl option"
  doc_r :: 'z
  sheets :: "'c Sheet list"
  strings :: "string list"
  xfs :: "16 word list"

definition xlsx_List :: "('cl, 'z, 'c) Document \<Rightarrow> string list \<times> error option" where
  "xlsx_List d = (map sheet_name (sheets d), None)"

text \<open>
  \<open>Get\<close> returns the pair (Collection, error) and, the sheets being held by pointer,
  leaves the parsed sheet in the document.
\<close>

fun Get_loop ::
    "('c Sheet \<Rightarrow> error option \<times> 'c Sheet) \<Rightarrow> 'c Sheet list \<Rightarrow> string
     \<Rightarrow> ('c option \<times> error option) \<times> 'c Sheet list" where
  "Get_loop parseSheet [] sheetName = ((None, Some (errors_New ''xlsx: sheet not found'')), [])"
| "Get_loop parseSheet (s # ss) sheetName =
     (if sheet_name s = sheetName then
        (let s' = (if sheet_err s = Some errNotLoaded
                   then (case parseSheet s of (e, s1) \<Rightarrow> s1\<lparr>sheet_err := e\<rparr>)
                   else s)
         in ((wrapped s', sheet_err s'), s' # ss))
      else (case Get_loop parseSheet ss sheetName of (res, ss') \<Rightarrow> (res, s # ss')))"

definition xlsx_Get ::
    "('c Sheet \<Rightarrow> error option \<times> 'c Sheet) \<Rightarrow> ('cl, 'z, 'c) Document \<Rightarrow> string
     \<Rightarrow> ('c option \<times> error option) \<times> ('cl, 'z, 'c) Document" where
  "xlsx_Get parseSheet d sheetName =
     (case Get_loop parseSheet (sheets d) sheetName of (res, ss') \<Rightarrow> (res, d\<lparr>sheets := ss'\<rparr>))"

text \<open>\<open>Close\<close> of the Document; what closing \<open>f\<close> returns is the parameter \<open>closeF\<close>.\<close>

definition xlsx_Close ::
    "('cl \<Rightarrow> error option) \<Rightarrow> ('cl, 'z, 'c) Document \<Rightarrow> error option \<times> ('cl, 'z, 'c) Document" where
  "xlsx_Close closeF d =
     (let d' = d\<lparr>xfs := [], strings := [], sheets := []\<rparr>
      in case doc_f d' of Some c \<Rightarrow> (closeF c, d') | None \<Rightarrow> (None, d'))"

subsection \<open>The caller's reader\<close>

text \<open>
  An \<open>io.ReadCloser\<close> as far as \<open>OpenReader\<close> can tell: the bytes it has not delivered yet,
  the error (if any) that \<open>Read\<close> reports in place of the end of the data, whether the
  end of the data has been reported, whether \<open>Close\<close> has been called, and what \<open>Close\<close>
  returns. \<open>io.ReadAll\<close> reads until the end of the data or an error and returns what it
  read; the end of the data is not an error.
\<close>

record reader =
  unread :: "8 word list"
  readErr :: "error option"
  atEOF :: bool
  closed :: bool
  closeErr :: "error option"

definition io_ReadAll :: "reader \<Rightarrow> (8 word list \<times> error option) \<times> reader" where
  "io_ReadAll rd =
     (case readErr rd of
        None \<Rightarrow> ((unread rd, None), rd\<lparr>unread := [], atEOF := True\<rparr>)
      | Some e \<Rightarrow> ((unread rd, Some e), rd\<lparr>unread := []\<rparr>))"

definition reader_Close :: "reader \<Rightarrow> error option \<times> reader" where
  "reader_Close rd = (closeErr rd, rd\<lparr>closed := True\<rparr>)"

definition fully_read :: "reader \<Rightarrow> bool" where
  "fully_read rd = (unread rd = [] \<and> atEOF rd)"

text \<open>
  \<open>OpenReader\<close> of package xlsx. \<open>zip.NewReader\<close> is a parameter. So is \<open>init\<close>: it works
  on the archive alone, through parsers of other files of the package, and returns its
  error and the document as it leaves it. The result is the pair (Source, error) as a sum,
  with the reader as the call leaves it.
\<close>

definition xlsx_OpenReader ::
    "(8 word list \<Rightarrow> int \<Rightarrow> error + 'z)
     \<Rightarrow> (('cl, 'z, 'c) Document \<Rightarrow> error option \<times> ('cl, 'z, 'c) Document)
     \<Rightarrow> ('cl \<Rightarrow> error option)
     \<Rightarrow> reader \<Rightarrow> (error + ('cl, 'z, 'c) Document) \<times> reader" where
  "xlsx_OpenReader zip_NewReader init closeF rd =
     (case io_ReadAll rd of
        ((data, Some err), rd1) \<Rightarrow> (Inl err, rd1)
      | ((data, None), rd1) \<Rightarrow>
          (case reader_Close rd1 of
             (Some err, rd2) \<Rightarrow> (Inl err, rd2)
           | (None, rd2) \<Rightarrow>
               (case zip_NewReader data (int (length data)) of
                  Inl err \<Rightarrow> (Inl (WrapErr err ErrNotInFormat), rd2)
                | Inr z \<Rightarrow>
                    (let d = \<lparr>doc_f = None, doc_r = z, sheets = [], strings = [], xfs = []\<rparr>
                     in case init d of
                          (Some err, d') \<Rightarrow> (case xlsx_Close closeF d' of (e, d'') \<Rightarrow> (Inl err, rd2))
                        | (None, d') \<Rightarrow> (Inr d', rd2)))))"

section \<open>Package cfb\<close>

text \<open>
  Of a directory entry and of the header, the fields that \<open>Open\<close> reads. \<open>String\<close> is
  the decoded name that \<open>e.String()\<close> returns. The two functions that build the readers
  are parameters; each returns the pair (io.ReadSeeker, error), as \<open>Open\<close> does.
\<close>

datatype objectType = typeUnknown | typeStorage | typeStream | typeRootStorage

record directory =
  String :: string
  ObjectType :: objectType
  StartingSectorLocation :: "32 word"
  StreamSize :: "64 word"

record header =
  MiniStreamCutoffSize :: "32 word"

record cfbDocument =
  header :: header
  dir :: "directory list"

fun cfb_Open_loop ::
    "(cfbDocument \<Rightarrow> 32 word \<Rightarrow> 64 word \<Rightarrow> 'rs option \<times> error option)
     \<Rightarrow> (cfbDocument \<Rightarrow> 32 word \<Rightarrow> 64 word \<Rightarrow> 'rs option \<times> error option)
     \<Rightarrow> cfbDocument \<Rightarrow> string \<Rightarrow> directory list \<Rightarrow> 'rs option \<times> error option" where
  "cfb_Open_loop getMiniStreamReader getStreamReader d nm [] =
     (None, Some (Errorf_stream_not_found nm))"
| "cfb_Open_loop getMiniStreamReader getStreamReader d nm (e # es) =
     (if String e = nm \<and> ObjectType e = typeStream then
        (if StreamSize e < ucast (MiniStreamCutoffSize (header d))
         then getMiniStreamReader d (StartingSectorLocation e) (StreamSize e)
         else if StreamSize e \<noteq> 0
         then getStreamReader d (StartingSectorLocation e) (StreamSize e)
         else cfb_Open_loop getMiniStreamReader getStreamReader d nm es)
      else cfb_Open_loop getMiniStreamReader getStreamReader d nm es)"

definition cfb_Open ::
    "(cfbDocument \<Rightarrow> 32 word \<Rightarrow> 64 word \<Rightarrow> 'rs option \<times> error option)
     \<Rightarrow> (cfbDocument \<Rightarrow> 32 word \<Rightarrow> 64 word \<Rightarrow> 'rs option \<times> error option)
     \<Rightarrow> cfbDocument \<Rightarrow> string \<Rightarrow> 'rs option \<times> error option" where
  "cfb_Open getMiniStreamReader getStreamReader d nm =
     cfb_Open_loop getMiniStreamReader getStreamReader d nm (dir d)"

text \<open>
  An entry that \<open>Open\<close> returns a reader for: a stream of the name asked for that is
  below the cutoff or not empty.
\<close>

definition opens :: "cfbDocument \<Rightarrow> string \<Rightarrow> directory \<Rightarrow> bool" where
  "opens d nm e =
     (String e = nm \<and> ObjectType e = typeStream
      \<and> (StreamSize e < ucast (MiniStreamCutoffSize (header d)) \<or> StreamSize e \<noteq> 0))"

section \<open>Stand-ins for concrete evaluations\<close>

text \<open>
  \<open>ParseFloat_stub\<close> stands for \<open>strconv.ParseFloat\<close> where no float is parsed, and the two
  reader builders tag their result with the chain they would follow.
\<close>

definition ParseFloat_stub :: "string \<Rightarrow> unit \<times> error option" where
  "ParseFloat_stub s = ((), Some (NumError ''ParseFloat'' s ErrSyntax))"

definition reader_via_miniFAT :: "cfbDocument \<Rightarrow> 32 word \<Rightarrow> 64 word \<Rightarrow> (string \<times> 32 word \<times> 64 word) option \<times> error option" where
  "reader_via_miniFAT d start sz = (Some (''miniFAT'', start, sz), None)"

definition reader_via_FAT :: "cfbDocument \<Rightarrow> 32 word \<Rightarrow> 64 word \<Rightarrow> (string \<times> 32 word \<times> 64 word) option \<times> error option" where
  "reader_via_FAT d start sz = (Some (''FAT'', start, sz), None)"

section \<open>Properties of the dispatch tables\<close>

subsection \<open>The sorting procedures\<close>

lemma mset_insertionSort_inner: "mset (insertionSort_inner lessf x ys) = add_mset x (mset ys)"
  by (induction ys) auto

lemma mset_foldl_insertionSort_inner:
  "mset (foldl (\<lambda>pre x. insertionSort_inner lessf x pre) acc xs) = mset acc + mset xs"
  by (induction xs arbitrary: acc) (auto simp: mset_insertionSort_inner)

lemma mset_insertionSort: "mset (insertionSort lessf xs) = mset xs"
  by (simp add: insertionSort_def mset_foldl_insertionSort_inner)

lemma set_insertionSort_inner: "set (insertionSort_inner lessf x ys) = insert x (set ys)"
  by (induction ys) auto

lemma sorted_insertionSort_inner:
  "sorted_wrt (\<lambda>a b. \<not> pri_less a b) ys \<Longrightarrow>
   sorted_wrt (\<lambda>a b. \<not> pri_less a b) (insertionSort_inner pri_less x ys)"
  by (induction ys) (auto simp: set_insertionSort_inner pri_less_def)

lemma sorted_foldl_insertionSort_inner:
  "sorted_wrt (\<lambda>a b. \<not> pri_less a b) acc \<Longrightarrow>
   sorted_wrt (\<lambda>a b. \<not> pri_less a b) (foldl (\<lambda>pre x. insertionSort_inner pri_less x pre) acc xs)"
  by (induction xs arbitrary: acc) (auto simp: sorted_insertionSort_inner)

lemma sorted_insertionSort: "sorted_wrt (\<lambda>x y. \<not> pri_less y x) (insertionSort pri_less xs)"
  using sorted_foldl_insertionSort_inner [of "[]" xs]
  by (simp add: insertionSort_def sorted_wrt_rev)

lemma insertionSort_spec: "sort_Slice_spec insertionSort"
  by (simp add: sort_Slice_spec_def mset_insertionSort sorted_insertionSort)

lemma filter_insertionSort_inner:
  "filter (\<lambda>e. pri e = p) (insertionSort_inner pri_less x ys) = filter (\<lambda>e. pri e = p) (x # ys)"
  by (induction ys) (auto simp: pri_less_def)

lemma filter_foldl_insertionSort_inner:
  "filter (\<lambda>e. pri e = p) (foldl (\<lambda>pre x. insertionSort_inner pri_less x pre) acc xs)
     = filter (\<lambda>e. pri e = p) (rev xs @ acc)"
proof (induction xs arbitrary: acc)
  case Nil
  then show ?case by simp
next
  case (Cons x xs)
  have "filter (\<lambda>e. pri e = p) (rev xs @ insertionSort_inner pri_less x acc)
          = filter (\<lambda>e. pri e = p) (rev xs @ x # acc)"
    by (simp only: filter_append filter_insertionSort_inner)
  with Cons.IH [of "insertionSort_inner pri_less x acc"] show ?case
    by simp
qed

lemma insertionSort_stable: "stable_on_pri insertionSort"
  by (simp add: stable_on_pri_def insertionSort_def filter_foldl_insertionSort_inner
      rev_filter [symmetric])

lemma mset_shell_fold:
  "\<forall>i\<in>set is. i < length xs \<Longrightarrow>
   mset (foldl (\<lambda>ys i. if lessf (ys ! i) (ys ! (i - 6)) then swap ys i (i - 6) else ys) xs is) = mset xs"
proof (induction "is" arbitrary: xs)
  case Nil
  then show ?case by simp
next
  case (Cons i "is")
  have "i < length xs" "i - 6 < length xs"
    using Cons.prems by auto
  then have "mset (swap xs i (i - 6)) = mset xs"
    unfolding swap_def by (simp add: mset_swap [of "i - 6" xs i])
  moreover have "length (swap xs i (i - 6)) = length xs"
    by (simp add: swap_def)
  ultimately show ?case
    using Cons by auto
qed

lemma mset_shellPass: "mset (shellPass lessf xs) = mset xs"
  by (simp add: shellPass_def mset_shell_fold)

lemma shellInsertionSort_spec: "sort_Slice_spec shellInsertionSort"
  by (simp add: sort_Slice_spec_def shellInsertionSort_def mset_insertionSort mset_shellPass
      sorted_insertionSort sorted_wrt01)

subsection \<open>Tables after registration\<close>

lemma pri_le_iff: "(\<lambda>x y. \<not> pri_less y x) = (\<lambda>x y. pri x \<le> pri y)"
  by (auto simp: pri_less_def fun_eq_iff)

lemma RegisterFile_calls_snoc:
  "RegisterFile_calls srt (calls @ [(nm, p, opn)])
     = srt pri_less (RegisterFile_calls srt calls @ [\<lparr>name = nm, pri = p, op = opn\<rparr>])"
  by (simp add: RegisterFile_calls_def RegisterFile_def)

lemma Register_calls_eq: "Register_calls srt calls = RegisterFile_calls srt calls"
  by (simp add: Register_calls_def RegisterFile_calls_def Register_def RegisterFile_def)

lemma RegisterReader_calls_eq: "RegisterReader_calls srt calls = RegisterFile_calls srt calls"
  by (simp add: RegisterReader_calls_def RegisterFile_calls_def RegisterReader_def RegisterFile_def)

lemma entries_snoc:
  "entries (calls @ [(nm, p, opn)]) = entries calls @ [\<lparr>name = nm, pri = p, op = opn\<rparr>]"
  by (simp add: entries_def)

lemma sorted_calls:
  assumes "sort_Slice_spec srt"
  shows "sorted_wrt (\<lambda>x y. pri x \<le> pri y) (RegisterFile_calls srt calls)"
proof (cases calls rule: rev_cases)
  case Nil
  then show ?thesis by (simp add: RegisterFile_calls_def)
next
  case (snoc cs c)
  obtain nm p opn where c: "c = (nm, p, opn)" by (cases c)
  show ?thesis
    using assms unfolding snoc c RegisterFile_calls_snoc sort_Slice_spec_def pri_le_iff
    by blast
qed

lemma mset_calls:
  assumes "sort_Slice_spec srt"
  shows "mset (RegisterFile_calls srt calls) = mset (entries calls)"
proof (induction calls rule: rev_induct)
  case Nil
  then show ?case by (simp add: RegisterFile_calls_def entries_def)
next
  case (snoc c cs)
  obtain nm p opn where c: "c = (nm, p, opn)" by (cases c)
  have "mset (RegisterFile_calls srt (cs @ [c]))
          = mset (RegisterFile_calls srt cs @ [\<lparr>name = nm, pri = p, op = opn\<rparr>])"
    using assms unfolding c RegisterFile_calls_snoc sort_Slice_spec_def by blast
  then show ?case
    using snoc by (simp add: c entries_snoc)
qed

lemma stable_calls:
  assumes "stable_on_pri srt"
  shows "filter (\<lambda>e. pri e = q) (RegisterFile_calls srt calls) = filter (\<lambda>e. pri e = q) (entries calls)"
proof (induction calls rule: rev_induct)
  case Nil
  then show ?case by (simp add: RegisterFile_calls_def entries_def)
next
  case (snoc c cs)
  obtain nm p opn where c: "c = (nm, p, opn)" by (cases c)
  have "filter (\<lambda>e. pri e = q) (RegisterFile_calls srt (cs @ [c]))
          = filter (\<lambda>e. pri e = q) (RegisterFile_calls srt cs @ [\<lparr>name = nm, pri = p, op = opn\<rparr>])"
    using assms unfolding c RegisterFile_calls_snoc stable_on_pri_def by blast
  then show ?case
    using snoc by (simp add: c entries_snoc)
qed

subsection \<open>The dispatch loop\<close>


lemma Open_run_eq: "Open_run tbl a = OpenFile_run tbl a"
  by (induction tbl) (auto split: sum.splits prod.splits)

lemma OpenReader_run_eq: "OpenReader_run tbl a = OpenFile_run tbl a"
  by (induction tbl) (auto split: sum.splits prod.splits)

lemma run_prefix: "prefix (snd (OpenFile_run tbl a)) tbl"
  by (induction tbl) (auto split: sum.splits prod.splits)

lemma run_accept:
  "\<forall>p \<in> set before. rejects p a \<Longrightarrow> op o1 a = Inr src \<Longrightarrow>
   OpenFile_run (before @ o1 # after) a = (Inr src, before @ [o1])"
  by (induction before) (auto simp: rejects_def split: sum.splits)

lemma run_abort:
  "\<forall>p \<in> set before. rejects p a \<Longrightarrow> op o1 a = Inl err \<Longrightarrow> \<not> errors_Is err ErrNotInFormat \<Longrightarrow>
   OpenFile_run (before @ o1 # after) a = (Inl err, before @ [o1])"
  by (induction before) (auto simp: rejects_def split: sum.splits)

lemma run_all_reject:
  "\<forall>p \<in> set tbl. rejects p a \<Longrightarrow> OpenFile_run tbl a = (Inl ErrUnknownFormat, tbl)"
  by (induction tbl) (auto simp: rejects_def split: sum.splits)

lemma dispatches_OpenFile: "dispatches OpenFile OpenFile_tried tbl a"
proof -
  have 1: "prefix (OpenFile_tried tbl a) tbl"
    unfolding OpenFile_tried_def by (rule run_prefix)
  have 2: "\<forall>before o1 after src.
      tbl = before @ o1 # after \<and> (\<forall>p \<in> set before. rejects p a) \<and> op o1 a = Inr src
      \<longrightarrow> OpenFile tbl a = Inr src \<and> OpenFile_tried tbl a = before @ [o1]"
  proof (intro allI impI)
    fix before o1 after src
    assume "tbl = before @ o1 # after \<and> (\<forall>p \<in> set before. rejects p a) \<and> op o1 a = Inr src"
    then show "OpenFile tbl a = Inr src \<and> OpenFile_tried tbl a = before @ [o1]"
      using run_accept [of before a o1 src after]
      by (simp add: OpenFile_def OpenFile_tried_def)
  qed
  have 3: "\<forall>before o1 after err.
      tbl = before @ o1 # after \<and> (\<forall>p \<in> set before. rejects p a)
        \<and> op o1 a = Inl err \<and> \<not> errors_Is err ErrNotInFormat
      \<longrightarrow> OpenFile tbl a = Inl err \<and> OpenFile_tried tbl a = before @ [o1]"
  proof (intro allI impI)
    fix before o1 after err
    assume "tbl = before @ o1 # after \<and> (\<forall>p \<in> set before. rejects p a)
        \<and> op o1 a = Inl err \<and> \<not> errors_Is err ErrNotInFormat"
    then show "OpenFile tbl a = Inl err \<and> OpenFile_tried tbl a = before @ [o1]"
      using run_abort [of before a o1 err after]
      by (simp add: OpenFile_def OpenFile_tried_def)
  qed
  have 4: "(\<forall>p \<in> set tbl. rejects p a)
      \<longrightarrow> OpenFile tbl a = Inl ErrUnknownFormat \<and> OpenFile_tried tbl a = tbl"
    using run_all_reject [of tbl a] by (simp add: OpenFile_def OpenFile_tried_def)
  show ?thesis
    unfolding dispatches_def using 1 2 3 4 by (intro conjI) assumption+
qed

lemma sorted_wrt_prefix: "prefix xs ys \<Longrightarrow> sorted_wrt P ys \<Longrightarrow> sorted_wrt P xs"
  by (auto simp: prefix_def sorted_wrt_append)




subsection \<open>The claims about the registry\<close>

text \<open>
  Claim C1. Whatever sequence of registrations built the table, \<open>Open\<close> calls the probes
  in ascending order of priority, and the dispatch goes as \<open>dispatches\<close> says: the
  Source of the first probe that does not reject is returned and no later probe is
  called, an error that is not \<open>ErrNotInFormat\<close> is returned at once, and
  \<open>ErrUnknownFormat\<close> is returned when every probe rejects. The same holds for
  \<open>OpenFile\<close> and \<open>OpenReader\<close> on their tables.
\<close>

theorem Open_dispatch:
  assumes "sort_Slice_spec sortS" and "sort_Slice_spec sortF" and "sort_Slice_spec sortR"
  shows "(sorted_wrt (\<lambda>x y. pri x \<le> pri y) (Open_tried (Register_calls sortS callsS) fname)
          \<and> dispatches Open Open_tried (Register_calls sortS callsS) fname)
       \<and> (sorted_wrt (\<lambda>x y. pri x \<le> pri y) (OpenFile_tried (RegisterFile_calls sortF callsF) file)
          \<and> dispatches OpenFile OpenFile_tried (RegisterFile_calls sortF callsF) file)
       \<and> (sorted_wrt (\<lambda>x y. pri x \<le> pri y) (OpenReader_tried (RegisterReader_calls sortR callsR) rd)
          \<and> dispatches OpenReader OpenReader_tried (RegisterReader_calls sortR callsR) rd)"
proof -
  have tried: "sorted_wrt (\<lambda>x y. pri x \<le> pri y) (OpenFile_tried (RegisterFile_calls srt calls) a)"
    if "sort_Slice_spec srt" for srt calls and a :: 'x
    unfolding OpenFile_tried_def
    using run_prefix sorted_calls [OF that] by (rule sorted_wrt_prefix)
  have eqS: "Open = OpenFile" "Open_tried = OpenFile_tried"
    and eqR: "OpenReader = OpenFile" "OpenReader_tried = OpenFile_tried"
    by (simp_all add: fun_eq_iff Open_run_eq OpenReader_run_eq Open_def OpenFile_def OpenReader_def
        Open_tried_def OpenFile_tried_def OpenReader_tried_def)
  show ?thesis
    unfolding eqS eqR Register_calls_eq RegisterReader_calls_eq
    using tried [OF assms(1)] tried [OF assms(2)] tried [OF assms(3)]
    by (simp add: dispatches_OpenFile)
qed

theorem Open_dispatch_witness:
  "sort_Slice_spec (insertionSort :: (_ \<Rightarrow> nat srcOpenTab \<Rightarrow> _) \<Rightarrow> _)
   \<and> Open (Register_calls insertionSort
         [(''xlsx'', 5, probe_accepting), (''xls'', 1, probe_rejecting), (''csv'', 15, probe_failing)])
       ''book.xlsx'' = Inr 7
   \<and> Open_tried (Register_calls insertionSort
         [(''xlsx'', 5, probe_accepting), (''xls'', 1, probe_rejecting), (''csv'', 15, probe_failing)])
       ''book.xlsx''
     = [\<lparr>name = ''xls'', pri = 1, op = probe_rejecting\<rparr>,
        \<lparr>name = ''xlsx'', pri = 5, op = probe_accepting\<rparr>]"
proof -
  let ?calls = "[(''xlsx'', 5, probe_accepting), (''xls'', 1, probe_rejecting), (''csv'', 15, probe_failing)]
                  :: (string \<times> int \<times> (string \<Rightarrow> error + nat)) list"
  let ?xls = "\<lparr>name = ''xls'', pri = 1, op = probe_rejecting :: string \<Rightarrow> error + nat\<rparr>"
  let ?xlsx = "\<lparr>name = ''xlsx'', pri = 5, op = probe_accepting :: string \<Rightarrow> error + nat\<rparr>"
  let ?csv = "\<lparr>name = ''csv'', pri = 15, op = probe_failing :: string \<Rightarrow> error + nat\<rparr>"
  have tbl: "Register_calls insertionSort ?calls = [?xls] @ ?xlsx # [?csv]"
    by (simp add: Register_calls_def Register_def insertionSort_def pri_less_def)
  have "dispatches Open Open_tried (Register_calls insertionSort ?calls) ''book.xlsx''"
    using Open_dispatch [OF insertionSort_spec insertionSort_spec insertionSort_spec,
        of ?calls "''book.xlsx''" "[]" "()" "[]" "()"]
    by (elim conjE)
  then have "Register_calls insertionSort ?calls = [?xls] @ ?xlsx # [?csv]
      \<and> (\<forall>p \<in> set [?xls]. rejects p ''book.xlsx'') \<and> op ?xlsx ''book.xlsx'' = Inr 7
      \<longrightarrow> Open (Register_calls insertionSort ?calls) ''book.xlsx'' = Inr 7
          \<and> Open_tried (Register_calls insertionSort ?calls) ''book.xlsx'' = [?xls] @ [?xlsx]"
    unfolding dispatches_def by blast
  then have "Open (Register_calls insertionSort ?calls) ''book.xlsx'' = Inr 7
      \<and> Open_tried (Register_calls insertionSort ?calls) ''book.xlsx'' = [?xls] @ [?xlsx]"
    using tbl by (simp add: rejects_def probe_rejecting_def probe_accepting_def)
  then show ?thesis
    using insertionSort_spec by simp
qed

text \<open>
  Claim C5, as the code has it. \<open>Register\<close> never looks at the names in the table: each
  call returns nil and leaves a table with one more entry, and one more entry of the
  name registered, whether or not the name was there before. When every probe rejects,
  \<open>Open\<close> calls every entry of the table, the entries of equal name included.
\<close>

theorem Register_appends_entry:
  assumes "sort_Slice_spec sort_Slice"
  shows "fst (Register sort_Slice nm p opener srcTable) = None
       \<and> length (snd (Register sort_Slice nm p opener srcTable)) = Suc (length srcTable)
       \<and> length (filter (\<lambda>e. name e = nm) (snd (Register sort_Slice nm p opener srcTable)))
           = Suc (length (filter (\<lambda>e. name e = nm) srcTable))
       \<and> ((\<forall>e \<in> set (snd (Register sort_Slice nm p opener srcTable)). rejects e fname)
            \<longrightarrow> Open_tried (snd (Register sort_Slice nm p opener srcTable)) fname
                  = snd (Register sort_Slice nm p opener srcTable))"
proof -
  let ?new = "\<lparr>name = nm, pri = p, op = opener\<rparr>"
  let ?tbl = "snd (Register sort_Slice nm p opener srcTable)"
  have m: "mset ?tbl = mset (srcTable @ [?new])"
    using assms unfolding Register_def sort_Slice_spec_def snd_conv by blast
  have "size (mset ?tbl) = size (mset (srcTable @ [?new]))"
    by (simp only: m)
  then have len: "length ?tbl = Suc (length srcTable)"
    by simp
  have "mset (filter (\<lambda>e. name e = nm) ?tbl) = mset (filter (\<lambda>e. name e = nm) (srcTable @ [?new]))"
    by (simp only: mset_filter m)
  then have "size (mset (filter (\<lambda>e. name e = nm) ?tbl))
               = size (mset (filter (\<lambda>e. name e = nm) (srcTable @ [?new])))"
    by (rule arg_cong)
  then have "length (filter (\<lambda>e. name e = nm) ?tbl)
               = length (filter (\<lambda>e. name e = nm) (srcTable @ [?new]))"
    by (simp only: size_mset)
  then have cnt: "length (filter (\<lambda>e. name e = nm) ?tbl) = Suc (length (filter (\<lambda>e. name e = nm) srcTable))"
    by simp
  have all: "Open_tried ?tbl fname = ?tbl" if "\<forall>e \<in> set ?tbl. rejects e fname"
    using run_all_reject [OF that] by (simp add: Open_run_eq Open_tried_def)
  show ?thesis
    using len cnt all by (simp add: Register_def)
qed

theorem Register_appends_entry_witness:
  "sort_Slice_spec (insertionSort :: (_ \<Rightarrow> nat srcOpenTab \<Rightarrow> _) \<Rightarrow> _)
   \<and> length (snd (Register insertionSort ''xlsx'' 5 probe_rejecting
         [\<lparr>name = ''xlsx'', pri = 5, op = probe_rejecting\<rparr>])) = Suc (length [\<lparr>name = ''xlsx'', pri = 5, op = probe_rejecting :: string \<Rightarrow> error + nat\<rparr>])
   \<and> length (filter (\<lambda>e. name e = ''xlsx'') (snd (Register insertionSort ''xlsx'' 5 probe_rejecting
         [\<lparr>name = ''xlsx'', pri = 5, op = probe_rejecting :: string \<Rightarrow> error + nat\<rparr>]))) = 2"
  using Register_appends_entry [OF insertionSort_spec, of "''xlsx''" 5 probe_rejecting
      "[\<lparr>name = ''xlsx'', pri = 5, op = probe_rejecting :: string \<Rightarrow> error + nat\<rparr>]" "''book.xls''"]
    insertionSort_spec
  by simp

text \<open>
  Claim C5 as stated fails: registering the name \<open>xlsx\<close> twice leaves two entries of that
  name, and \<open>Open\<close> calls both probes on a file that they reject.
\<close>

theorem Register_not_idempotent:
  "map name (snd (Register insertionSort ''xlsx'' 5 probe_rejecting
       (snd (Register insertionSort ''xlsx'' 5 probe_rejecting [])))) = [''xlsx'', ''xlsx'']
   \<and> map name (Open_tried (snd (Register insertionSort ''xlsx'' 5 probe_rejecting
       (snd (Register insertionSort ''xlsx'' 5 probe_rejecting [])))) ''book.xls'') = [''xlsx'', ''xlsx'']"
  by (simp add: Register_def insertionSort_def pri_less_def probe_rejecting_def Open_tried_def)

text \<open>
  Claim C4, as the code has it. After any sequence of calls the table holds the entries
  registered, in ascending order of priority. Entries of equal priority are in the
  order of their registration when the sort is stable on priorities, which
  \<open>sort.Slice\<close> does not promise. The same holds for the three tables.
\<close>

theorem Register_table_order:
  assumes "sort_Slice_spec sortS" and "sort_Slice_spec sortF" and "sort_Slice_spec sortR"
  shows "(sorted_wrt (\<lambda>x y. pri x \<le> pri y) (Register_calls sortS callsS)
          \<and> mset (Register_calls sortS callsS) = mset (entries callsS)
          \<and> (stable_on_pri sortS \<longrightarrow>
               (\<forall>p. with_pri p (Register_calls sortS callsS) = with_pri p (entries callsS))))
       \<and> (sorted_wrt (\<lambda>x y. pri x \<le> pri y) (RegisterFile_calls sortF callsF)
          \<and> mset (RegisterFile_calls sortF callsF) = mset (entries callsF)
          \<and> (stable_on_pri sortF \<longrightarrow>
               (\<forall>p. with_pri p (RegisterFile_calls sortF callsF) = with_pri p (entries callsF))))
       \<and> (sorted_wrt (\<lambda>x y. pri x \<le> pri y) (RegisterReader_calls sortR callsR)
          \<and> mset (RegisterReader_calls sortR callsR) = mset (entries callsR)
          \<and> (stable_on_pri sortR \<longrightarrow>
               (\<forall>p. with_pri p (RegisterReader_calls sortR callsR) = with_pri p (entries callsR))))"
  unfolding Register_calls_eq RegisterReader_calls_eq with_pri_def
  using assms by (simp add: sorted_calls mset_calls stable_calls)

theorem Register_table_order_witness:
  "sort_Slice_spec (insertionSort :: (_ \<Rightarrow> nat srcOpenTab \<Rightarrow> _) \<Rightarrow> _)
   \<and> stable_on_pri (insertionSort :: (_ \<Rightarrow> nat srcOpenTab \<Rightarrow> _) \<Rightarrow> _)
   \<and> with_pri 5 (Register_calls insertionSort
        [(''b'', 5, probe_rejecting), (''a'', 1, probe_rejecting), (''c'', 5, probe_accepting)])
     = [\<lparr>name = ''b'', pri = 5, op = probe_rejecting\<rparr>, \<lparr>name = ''c'', pri = 5, op = probe_accepting\<rparr>]"
proof -
  have "with_pri 5 (Register_calls insertionSort
        [(''b'', 5, probe_rejecting), (''a'', 1, probe_rejecting), (''c'', 5, probe_accepting)])
     = with_pri 5 (entries [(''b'', 5, probe_rejecting :: string \<Rightarrow> error + nat), (''a'', 1, probe_rejecting), (''c'', 5, probe_accepting)])"
    using Register_table_order [OF insertionSort_spec insertionSort_spec insertionSort_spec,
        of "[(''b'', 5, probe_rejecting), (''a'', 1, probe_rejecting), (''c'', 5, probe_accepting)]"
           "[] :: (string \<times> int \<times> (unit \<Rightarrow> error + nat)) list"
           "[] :: (string \<times> int \<times> (unit \<Rightarrow> error + nat)) list"]
      insertionSort_stable
    by blast
  then show ?thesis
    using insertionSort_spec insertionSort_stable by (simp add: with_pri_def entries_def)
qed

text \<open>
  Claim C4 as stated fails with a sort that meets the contract of \<open>sort.Slice\<close> and is
  not stable: \<open>b\<close> is registered before \<open>c\<close> to \<open>g\<close> at the same priority and ends up
  behind them once \<open>h\<close> is registered.
\<close>

theorem Register_order_not_insertion:
  "sort_Slice_spec (shellInsertionSort :: (_ \<Rightarrow> nat srcOpenTab \<Rightarrow> _) \<Rightarrow> _)
   \<and> map name (with_pri 5 (Register_calls shellInsertionSort
       [(''a'', 1, probe_rejecting), (''b'', 5, probe_rejecting), (''c'', 5, probe_rejecting),
        (''d'', 5, probe_rejecting), (''e'', 5, probe_rejecting), (''f'', 5, probe_rejecting),
        (''g'', 5, probe_rejecting), (''h'', 3, probe_accepting)]))
     = [''c'', ''d'', ''e'', ''f'', ''g'', ''b'']
   \<and> map name (with_pri 5 (entries
       [(''a'', 1, probe_rejecting), (''b'', 5, probe_rejecting), (''c'', 5, probe_rejecting),
        (''d'', 5, probe_rejecting), (''e'', 5, probe_rejecting), (''f'', 5, probe_rejecting),
        (''g'', 5, probe_rejecting), (''h'', 3, probe_accepting)]))
     = [''b'', ''c'', ''d'', ''e'', ''f'', ''g'']"
  using shellInsertionSort_spec
  by (simp add: Register_calls_def Register_def shellInsertionSort_def insertionSort_def
      shellPass_def swap_def pri_less_def with_pri_def entries_def)

section \<open>Properties of package simple\<close>

lemma wrap_int64_id: "- (2 ^ 63) \<le> x \<Longrightarrow> x < 2 ^ 63 \<Longrightarrow> wrap_int64 x = x"
  by (simp add: wrap_int64_def)

text \<open>
  Claim C9. When \<open>Next\<close> returns true, the row it made current has lists
  \<open>Strings()\<close>, \<open>Types()\<close> and \<open>Formats()\<close> that all exist and have the same length.
  The cursor is at \<open>-1\<close> before the first call and only grows; it is taken to be below
  the largest \<open>int\<close>, where the increment would wrap around.
\<close>

theorem simple_row_lengths_equal:
  assumes "simple_Next t = (True, t')" and "- 1 \<le> iterRow t" and "iterRow t < 2 ^ 63 - 1"
  shows "\<exists>ss ts fs. simple_Strings t' = Some ss \<and> simple_Types t' = Some ts
           \<and> simple_Formats t' = Some fs
           \<and> length ss = length ts \<and> length ts = length fs"
proof -
  have w: "wrap_int64 (iterRow t + 1) = iterRow t + 1"
    using assms(2,3) by (intro wrap_int64_id) auto
  from assms(1) have t': "t' = t\<lparr>iterRow := iterRow t + 1\<rparr>"
    and lt: "iterRow t + 1 < int (length (rows t))"
    by (auto simp: simple_Next_def Let_def w)
  have "current_row t' = Some (rows t ! nat (iterRow t + 1))"
    using lt assms(2) by (simp add: current_row_def t')
  then show ?thesis
    by (simp add: simple_Strings_def simple_Types_def simple_Formats_def)
qed

theorem simple_row_lengths_equal_witness:
  "simple_Next \<lparr>filename = ''a.csv'', rows = [[''x'', '''', ''z'']], iterRow = - 1\<rparr>
     = (True, \<lparr>filename = ''a.csv'', rows = [[''x'', '''', ''z'']], iterRow = 0\<rparr>)
   \<and> (\<exists>ss ts fs.
         simple_Strings \<lparr>filename = ''a.csv'', rows = [[''x'', '''', ''z'']], iterRow = 0\<rparr> = Some ss
       \<and> simple_Types \<lparr>filename = ''a.csv'', rows = [[''x'', '''', ''z'']], iterRow = 0\<rparr> = Some ts
       \<and> simple_Formats \<lparr>filename = ''a.csv'', rows = [[''x'', '''', ''z'']], iterRow = 0\<rparr> = Some fs
       \<and> length ss = length ts \<and> length ts = length fs)"
proof -
  have n: "simple_Next \<lparr>filename = ''a.csv'', rows = [[''x'', '''', ''z'']], iterRow = - 1\<rparr>
     = (True, \<lparr>filename = ''a.csv'', rows = [[''x'', '''', ''z'']], iterRow = 0\<rparr>)"
    by (simp add: simple_Next_def wrap_int64_def)
  show ?thesis
    using n simple_row_lengths_equal [OF n] by simp
qed

text \<open>
  Claim C10. With a current row, when the number of arguments of \<open>Scan\<close> differs from
  the number of cells of the row, \<open>Scan\<close> returns an error and every argument is as it
  was before the call.
\<close>

theorem simple_Scan_arity_mismatch:
  assumes "current_row t = Some row" and "length row \<noteq> length args"
  shows "simple_Scan ParseFloat t args =
           Some (Some (Errorf_expected_Scan_destinations (int (length row)) (int (length args))), args)"
  using assms by (simp add: simple_Scan_def)

theorem simple_Scan_arity_mismatch_witness:
  "current_row \<lparr>filename = ''a.csv'', rows = [[''x'', ''7'']], iterRow = 0\<rparr> = Some [''x'', ''7'']
   \<and> length [''x'', ''7''] \<noteq> length [Ptr_int 3 :: unit arg]
   \<and> simple_Scan (\<lambda>s. ((), None)) \<lparr>filename = ''a.csv'', rows = [[''x'', ''7'']], iterRow = 0\<rparr> [Ptr_int 3]
       = Some (Some (Errorf_expected_Scan_destinations 2 1), [Ptr_int 3])"
proof -
  have c: "current_row \<lparr>filename = ''a.csv'', rows = [[''x'', ''7'']], iterRow = 0\<rparr> = Some [''x'', ''7'']"
    by (simp add: current_row_def)
  have l: "length [''x'', ''7''] \<noteq> length [Ptr_int 3 :: unit arg]"
    by simp
  show ?thesis
    using c l simple_Scan_arity_mismatch [OF c l, of "\<lambda>s. ((), None)"] by simp
qed

subsection \<open>Scan\<close>

lemma ParseInt_error:
  "ParseInt s = (n, Some e) \<Longrightarrow> \<exists>k. e = NumError ''ParseInt'' s k"
  by (auto simp: ParseInt_def Let_def split: if_splits prod.splits)

lemma Scan_loop_append:
  "Scan_loop pf row i pre = (None, pre') \<Longrightarrow>
   Scan_loop pf row i (pre @ rest) =
     (case Scan_loop pf row (i + length pre) rest of (res, rest') \<Rightarrow> (res, pre' @ rest'))"
proof (induction pre arbitrary: i pre')
  case Nil
  then show ?case by simp
next
  case (Cons a pre)
  obtain a' r where a: "scanArg pf (row ! i) a = (a', r)"
    by (cases "scanArg pf (row ! i) a")
  with Cons.prems have r: "r = None"
    by (cases r) auto
  obtain res ps where l: "Scan_loop pf row (Suc i) pre = (res, ps)"
    by (cases "Scan_loop pf row (Suc i) pre")
  with Cons.prems a r have "res = None" "pre' = a' # ps"
    by auto
  with Cons.IH [of "Suc i" ps] l a r show ?case
    by (simp split: prod.splits)
qed

lemma simple_Scan_at:
  assumes "current_row t = Some row" and "length row = length (pre @ a # post)"
    and "Scan_loop pf row 0 pre = (None, pre')"
  shows "simple_Scan pf t (pre @ a # post) =
           Some (case scanArg pf (row ! length pre) a of
                   (a', Some err) \<Rightarrow> (Some err, pre' @ a' # post)
                 | (a', None) \<Rightarrow>
                     (case Scan_loop pf row (Suc (length pre)) post of
                        (res, post') \<Rightarrow> (res, pre' @ a' # post')))"
  using assms(1,2) Scan_loop_append [OF assms(3), of "a # post"]
  by (auto simp: simple_Scan_def split: prod.splits option.splits)

text \<open>
  Claim C6, as the code has it. When the parse of a number fails at an argument, the
  arguments before it having been scanned, \<open>Scan\<close> returns the very error of the parser:
  for an integer a \<open>NumError\<close> that names \<open>ParseInt\<close> and the text of the cell, and
  for a float whatever \<open>ParseFloat\<close> returns. The index of the column is not part of
  it. \<open>Err()\<close> is nil, and \<open>Scan\<close> has no effect on the file or its cursor.
\<close>

theorem simple_Scan_parse_failure:
  assumes "current_row t = Some row" and "length row = length pre + 1 + length post"
    and "Scan_loop ParseFloat row 0 pre = (None, pre')"
  shows "(ParseInt (row ! length pre) = (n, Some e) \<longrightarrow>
            simple_Scan ParseFloat t (pre @ Ptr_int v # post) = Some (Some e, pre' @ Ptr_int n # post)
            \<and> (\<exists>k. e = NumError ''ParseInt'' (row ! length pre) k))
       \<and> (ParseFloat (row ! length pre) = (x, Some e') \<longrightarrow>
            simple_Scan ParseFloat t (pre @ Ptr_float64 w # post) = Some (Some e', pre' @ Ptr_float64 x # post))
       \<and> simple_Err t = None"
proof -
  have len: "length row = length (pre @ a # post)" for a :: "'a arg"
    using assms(2) by simp
  show ?thesis
    using simple_Scan_at [OF assms(1) len assms(3)] ParseInt_error [of "row ! length pre" n e]
    by (simp add: scanArg_def simple_Err_def)
qed

theorem simple_Scan_parse_failure_witness:
  "current_row \<lparr>filename = ''t.csv'', rows = [[''a'', ''x'']], iterRow = 0\<rparr> = Some [''a'', ''x'']
   \<and> Scan_loop ParseFloat_stub [''a'', ''x''] 0 [Ptr_string ''old''] = (None, [Ptr_string ''a''])
   \<and> ParseInt ''x'' = (0, Some (NumError ''ParseInt'' ''x'' ErrSyntax))
   \<and> simple_Scan ParseFloat_stub \<lparr>filename = ''t.csv'', rows = [[''a'', ''x'']], iterRow = 0\<rparr>
        [Ptr_string ''old'', Ptr_int 5]
      = Some (Some (NumError ''ParseInt'' ''x'' ErrSyntax), [Ptr_string ''a'', Ptr_int 0])"
proof -
  let ?t = "\<lparr>filename = ''t.csv'', rows = [[''a'', ''x'']], iterRow = 0\<rparr>"
  have c: "current_row ?t = Some [''a'', ''x'']"
    by (simp add: current_row_def)
  have l: "length [''a'', ''x''] = length [Ptr_string ''old'' :: unit arg] + 1 + length ([] :: unit arg list)"
    by simp
  have s: "Scan_loop ParseFloat_stub [''a'', ''x''] 0 [Ptr_string ''old''] = (None, [Ptr_string ''a''])"
    by (simp add: scanArg_def)
  have p: "ParseInt ''x'' = (0, Some (NumError ''ParseInt'' ''x'' ErrSyntax))"
    by (simp add: ParseInt_def ParseUint_def)
  show ?thesis
    using c s p simple_Scan_parse_failure [OF c l s, of 0 "NumError ''ParseInt'' ''x'' ErrSyntax" 5]
    by simp
qed

text \<open>
  Claim C6 as stated fails: the error does not tell the column. On the row of four
  empty cells the integer is the second argument, on the row of one empty cell it is
  the first, and both calls return the same error.
\<close>

theorem simple_Scan_error_without_column:
  "simple_Scan ParseFloat_stub \<lparr>filename = ''t.csv'', rows = [['''', '''', '''', '''']], iterRow = 0\<rparr>
       [Ptr_bool True, Ptr_int 5, Ptr_float64 (), Ptr_string ''s'']
     = Some (Some (NumError ''ParseInt'' '''' ErrSyntax),
             [Ptr_bool False, Ptr_int 0, Ptr_float64 (), Ptr_string ''s''])
   \<and> simple_Scan ParseFloat_stub \<lparr>filename = ''t.csv'', rows = [['''']], iterRow = 0\<rparr> [Ptr_int 5]
     = Some (Some (NumError ''ParseInt'' '''' ErrSyntax), [Ptr_int 0])"
  by (simp add: simple_Scan_def current_row_def scanArg_def ParseInt_def strings_ToLower_def)

text \<open>
  Claim C2, as the code of the simple backend has it. With a current row, as many
  arguments as cells and no error at an earlier argument: a \<open>*bool\<close> and a \<open>*string\<close>
  are written and the scan goes on, and so is a \<open>*float64\<close> when \<open>ParseFloat\<close> succeeds;
  a \<open>*time.Time\<close> ends the scan with an error of its own, which is not
  \<open>ErrInvalidScanType\<close>; an argument of a type that the switch does not name ends it
  with \<open>ErrInvalidScanType\<close>.
\<close>

theorem simple_Scan_types:
  assumes "current_row t = Some row" and "length row = length pre + 1 + length post"
    and "Scan_loop ParseFloat row 0 pre = (None, pre')"
    and "Scan_loop ParseFloat row (Suc (length pre)) post = (res, post')"
  shows "simple_Scan ParseFloat t (pre @ Ptr_bool b # post)
           = Some (res, pre' @ Ptr_bool (strings_ToLower (row ! length pre) \<in> set [''1'', ''t'', ''true'', ''y'', ''yes'']) # post')
       \<and> simple_Scan ParseFloat t (pre @ Ptr_string s # post)
           = Some (res, pre' @ Ptr_string (row ! length pre) # post')
       \<and> (ParseFloat (row ! length pre) = (x, None) \<longrightarrow>
            simple_Scan ParseFloat t (pre @ Ptr_float64 w # post) = Some (res, pre' @ Ptr_float64 x # post'))
       \<and> simple_Scan ParseFloat t (pre @ Ptr_time # post)
           = Some (Some (errors_New ''grate/simple: time.Time not supported, you must parse date strings manually''),
                   pre' @ Ptr_time # post)
       \<and> simple_Scan ParseFloat t (pre @ Other_arg ty # post)
           = Some (Some ErrInvalidScanType, pre' @ Other_arg ty # post)"
proof -
  have len: "length row = length (pre @ a # post)" for a :: "'a arg"
    using assms(2) by simp
  show ?thesis
    using simple_Scan_at [OF assms(1) len assms(3)] assms(4)
    by (simp add: scanArg_def)
qed

theorem simple_Scan_types_witness:
  "current_row \<lparr>filename = ''t.csv'', rows = [[''Yes'', ''2021-01-01'']], iterRow = 0\<rparr> = Some [''Yes'', ''2021-01-01'']
   \<and> simple_Scan ParseFloat_stub \<lparr>filename = ''t.csv'', rows = [[''Yes'', ''2021-01-01'']], iterRow = 0\<rparr>
        [Ptr_bool False, Other_arg ''*uint8'']
      = Some (Some ErrInvalidScanType, [Ptr_bool True, Other_arg ''*uint8''])"
proof -
  let ?t = "\<lparr>filename = ''t.csv'', rows = [[''Yes'', ''2021-01-01'']], iterRow = 0\<rparr>"
  have c: "current_row ?t = Some [''Yes'', ''2021-01-01'']"
    by (simp add: current_row_def)
  have l: "length [''Yes'', ''2021-01-01''] = length [Ptr_bool False :: unit arg] + 1 + length ([] :: unit arg list)"
    by simp
  have s: "Scan_loop ParseFloat_stub [''Yes'', ''2021-01-01''] 0 [Ptr_bool False] = (None, [Ptr_bool True])"
    by code_simp
  have e: "Scan_loop ParseFloat_stub [''Yes'', ''2021-01-01''] (Suc (length [Ptr_bool False :: unit arg])) [] = (None, [])"
    by simp
  show ?thesis
    using c simple_Scan_types [OF c l s e, of False "[]" "()" "()" "''*uint8''"]
    by simp
qed

text \<open>
  Claim C2 as stated fails: a \<open>*time.Time\<close> is not accepted, and the error is not
  \<open>ErrInvalidScanType\<close>.
\<close>

theorem simple_Scan_rejects_time:
  "simple_Scan ParseFloat_stub \<lparr>filename = ''t.csv'', rows = [[''2021-01-01'']], iterRow = 0\<rparr> [Ptr_time]
     = Some (Some (errors_New ''grate/simple: time.Time not supported, you must parse date strings manually''),
             [Ptr_time])"
  by (simp add: simple_Scan_def current_row_def scanArg_def)

text \<open>
  The integer types, for the record: a \<open>*int\<close> is written when \<open>ParseInt\<close> succeeds, and a
  \<open>*int64\<close> is a type that the switch does not name.
\<close>

lemma simple_Scan_int_and_int64:
  assumes "current_row t = Some row" and "length row = length pre + 1 + length post"
    and "Scan_loop ParseFloat row 0 pre = (None, pre')"
    and "Scan_loop ParseFloat row (Suc (length pre)) post = (res, post')"
  shows "(ParseInt (row ! length pre) = (n, None) \<longrightarrow>
            simple_Scan ParseFloat t (pre @ Ptr_int v # post) = Some (res, pre' @ Ptr_int n # post'))
       \<and> simple_Scan ParseFloat t (pre @ Ptr_int64 v # post)
           = Some (Some ErrInvalidScanType, pre' @ Ptr_int64 v # post)"
proof -
  have len: "length row = length (pre @ a # post)" for a :: "'a arg"
    using assms(2) by simp
  show ?thesis
    using simple_Scan_at [OF assms(1) len assms(3)] assms(4)
    by (simp add: scanArg_def)
qed

lemma ParseInt_examples:
  "ParseInt ''7'' = (7, None)" "ParseInt ''-42'' = (- 42, None)"
  "ParseInt ''+'' = (0, Some (NumError ''ParseInt'' ''+'' ErrSyntax))"
  "ParseInt ''9223372036854775808'' = (9223372036854775807, Some (NumError ''ParseInt'' ''9223372036854775808'' ErrRange))"
  "ParseInt ''-9223372036854775808'' = (- 9223372036854775808, None)"
  "ParseInt ''1_000'' = (0, Some (NumError ''ParseInt'' ''1_000'' ErrSyntax))"
  by (simp_all add: ParseInt_def ParseUint_def maxUint64_def)

section \<open>Properties of the Sources\<close>

lemma Get_loop_unknown:
  "sheetName \<notin> set (map sheet_name ss) \<Longrightarrow>
   Get_loop parseSheet ss sheetName = ((None, Some (errors_New ''xlsx: sheet not found'')), ss)"
  by (induction ss) auto

text \<open>
  Claim C3, as the code has it. \<open>Get\<close> of an xlsx Document with a name that \<open>List()\<close> does
  not return gives the error \<open>xlsx: sheet not found\<close> and no Collection, and leaves the
  document as it is. \<open>Get\<close> of the simple backend does not look at the name: it returns
  the file as the Collection and no error, for every name.
\<close>

theorem Get_unknown_name:
  "(sheetName \<notin> set (fst (xlsx_List d)) \<longrightarrow>
      xlsx_Get parseSheet d sheetName = ((None, Some (errors_New ''xlsx: sheet not found'')), d))
   \<and> simple_Get t nm = (Some t, None)"
  by (simp add: xlsx_List_def xlsx_Get_def Get_loop_unknown simple_Get_def)

theorem Get_unknown_name_witness:
  "''Sheet2'' \<notin> set (fst (xlsx_List
       \<lparr>doc_f = None :: unit option, doc_r = (),
        sheets = [\<lparr>sheet_name = ''Sheet1'', sheet_err = Some errNotLoaded, wrapped = None :: unit option\<rparr>],
        strings = [], xfs = []\<rparr>))
   \<and> xlsx_Get (\<lambda>s. (None, s))
       \<lparr>doc_f = None :: unit option, doc_r = (),
        sheets = [\<lparr>sheet_name = ''Sheet1'', sheet_err = Some errNotLoaded, wrapped = None :: unit option\<rparr>],
        strings = [], xfs = []\<rparr> ''Sheet2''
     = ((None, Some (errors_New ''xlsx: sheet not found'')),
        \<lparr>doc_f = None :: unit option, doc_r = (),
         sheets = [\<lparr>sheet_name = ''Sheet1'', sheet_err = Some errNotLoaded, wrapped = None :: unit option\<rparr>],
         strings = [], xfs = []\<rparr>)"
proof -
  let ?d = "\<lparr>doc_f = None :: unit option, doc_r = (),
        sheets = [\<lparr>sheet_name = ''Sheet1'', sheet_err = Some errNotLoaded, wrapped = None :: unit option\<rparr>],
        strings = [], xfs = []\<rparr>"
  have n: "''Sheet2'' \<notin> set (fst (xlsx_List ?d))"
    by (simp add: xlsx_List_def)
  show ?thesis
    using n Get_unknown_name [of "''Sheet2''" ?d "\<lambda>s. (None, s)"]
    by simp
qed

text \<open>
  Claim C3 as stated fails for the simple backend: \<open>List()\<close> of the file \<open>data/book.csv\<close>
  is the one name \<open>book.csv\<close>, and \<open>Get\<close> with the name \<open>Sheet1\<close> returns the Collection
  and no error.
\<close>

theorem simple_Get_ignores_name:
  "simple_List \<lparr>filename = ''data/book.csv'', rows = [[''a'']], iterRow = - 1\<rparr> = ([''book.csv''], None)
   \<and> simple_Get \<lparr>filename = ''data/book.csv'', rows = [[''a'']], iterRow = - 1\<rparr> ''Sheet1''
       = (Some \<lparr>filename = ''data/book.csv'', rows = [[''a'']], iterRow = - 1\<rparr>, None)"
  by (simp add: simple_List_def simple_Get_def filepath_Base_def)

section \<open>Properties of package cfb\<close>

lemma cfb_Open_loop_skip:
  "\<not> opens d nm e \<Longrightarrow> cfb_Open_loop gm gs d nm (e # es) = cfb_Open_loop gm gs d nm es"
  by (auto simp: opens_def)

lemma cfb_Open_loop_take:
  "opens d nm e \<Longrightarrow>
   cfb_Open_loop gm gs d nm (e # es) =
     (if StreamSize e < ucast (MiniStreamCutoffSize (header d))
      then gm d (StartingSectorLocation e) (StreamSize e)
      else gs d (StartingSectorLocation e) (StreamSize e))"
  by (auto simp: opens_def)

lemma cfb_Open_loop_first:
  "\<forall>p \<in> set before. \<not> opens d nm p \<Longrightarrow> opens d nm e \<Longrightarrow>
   cfb_Open_loop gm gs d nm (before @ e # after) =
     (if StreamSize e < ucast (MiniStreamCutoffSize (header d))
      then gm d (StartingSectorLocation e) (StreamSize e)
      else gs d (StartingSectorLocation e) (StreamSize e))"
  by (induction before) (simp_all add: cfb_Open_loop_take cfb_Open_loop_skip del: cfb_Open_loop.simps(2))

lemma cfb_Open_loop_none:
  "\<forall>p \<in> set es. \<not> opens d nm p \<Longrightarrow>
   cfb_Open_loop gm gs d nm es = (None, Some (Errorf_stream_not_found nm))"
  by (induction es) (simp_all add: cfb_Open_loop_skip del: cfb_Open_loop.simps(2))

text \<open>
  Claim C7, as the code has it. \<open>Open\<close> takes the first entry of the directory that is a
  stream of the given name and is below the cutoff or not empty; it reads it through
  the miniFAT chain when its size is strictly below the cutoff and through the FAT
  chain otherwise. An empty stream in a document whose cutoff is 0 is passed over.
  When no entry is taken the result is the error that the stream was not found.
\<close>

theorem cfb_Open_chain:
  "(dir d = before @ e # after \<and> (\<forall>p \<in> set before. \<not> opens d nm p) \<and> opens d nm e \<longrightarrow>
      cfb_Open getMiniStreamReader getStreamReader d nm =
        (if StreamSize e < ucast (MiniStreamCutoffSize (header d))
         then getMiniStreamReader d (StartingSectorLocation e) (StreamSize e)
         else getStreamReader d (StartingSectorLocation e) (StreamSize e)))
   \<and> ((\<forall>p \<in> set (dir d). \<not> opens d nm p) \<longrightarrow>
      cfb_Open getMiniStreamReader getStreamReader d nm = (None, Some (Errorf_stream_not_found nm)))"
  by (simp add: cfb_Open_def cfb_Open_loop_first cfb_Open_loop_none)

theorem cfb_Open_chain_witness:
  "cfb_Open reader_via_miniFAT reader_via_FAT
     \<lparr>header = \<lparr>MiniStreamCutoffSize = 4096\<rparr>,
      dir = [\<lparr>String = ''Root Entry'', ObjectType = typeRootStorage, StartingSectorLocation = 3, StreamSize = 8192\<rparr>,
             \<lparr>String = ''Workbook'', ObjectType = typeStream, StartingSectorLocation = 9, StreamSize = 4096\<rparr>]\<rparr>
     ''Workbook''
   = (Some (''FAT'', 9, 4096), None)"
proof -
  let ?root = "\<lparr>String = ''Root Entry'', ObjectType = typeRootStorage, StartingSectorLocation = 3, StreamSize = 8192\<rparr>"
  let ?wb = "\<lparr>String = ''Workbook'', ObjectType = typeStream, StartingSectorLocation = 9, StreamSize = 4096\<rparr>"
  let ?d = "\<lparr>header = \<lparr>MiniStreamCutoffSize = 4096\<rparr>, dir = [?root, ?wb]\<rparr>"
  have "dir ?d = [?root] @ ?wb # [] \<and> (\<forall>p \<in> set [?root]. \<not> opens ?d ''Workbook'' p) \<and> opens ?d ''Workbook'' ?wb"
    by (simp add: opens_def)
  then show ?thesis
    using cfb_Open_chain [of ?d "[?root]" ?wb "[]" "''Workbook''" reader_via_miniFAT reader_via_FAT]
    by (simp add: reader_via_FAT_def)
qed

text \<open>
  Claim C7 as stated fails where the cutoff of the header is 0: the empty stream
  \<open>Workbook\<close> is in the directory, its size is not below the cutoff, and \<open>Open\<close> answers
  that the stream was not found.
\<close>

theorem cfb_Open_empty_stream_skipped:
  "cfb_Open reader_via_miniFAT reader_via_FAT
     \<lparr>header = \<lparr>MiniStreamCutoffSize = 0\<rparr>,
      dir = [\<lparr>String = ''Workbook'', ObjectType = typeStream, StartingSectorLocation = 0, StreamSize = 0\<rparr>]\<rparr>
     ''Workbook''
   = (None, Some (Errorf_stream_not_found ''Workbook''))"
  by (simp add: cfb_Open_def)

section \<open>Properties of package xlsx\<close>

text \<open>
  Claim C8. Whenever \<open>OpenReader\<close> returns a document, the reader has been read to its
  end and closed. When reading and closing succeed and \<open>zip.NewReader\<close> fails, the data
  is rejected with an error classified as \<open>ErrNotInFormat\<close>, and the reader has been
  read to its end and closed. The same state of the reader holds for every outcome
  once reading and closing have succeeded.
\<close>

theorem xlsx_OpenReader_drains_and_closes:
  "(xlsx_OpenReader zip_NewReader init closeF rd = (Inr d, rd') \<longrightarrow> fully_read rd' \<and> closed rd')
   \<and> (readErr rd = None \<and> closeErr rd = None
        \<and> zip_NewReader (unread rd) (int (length (unread rd))) = Inl zerr \<longrightarrow>
      xlsx_OpenReader zip_NewReader init closeF rd
        = (Inl (WrapErr zerr ErrNotInFormat), rd\<lparr>unread := [], atEOF := True, closed := True\<rparr>)
      \<and> errors_Is (WrapErr zerr ErrNotInFormat) ErrNotInFormat)
   \<and> (readErr rd = None \<and> closeErr rd = None \<longrightarrow>
      fully_read (snd (xlsx_OpenReader zip_NewReader init closeF rd))
      \<and> closed (snd (xlsx_OpenReader zip_NewReader init closeF rd)))"
  by (auto simp: xlsx_OpenReader_def io_ReadAll_def reader_Close_def fully_read_def Let_def
      split: option.splits sum.splits prod.splits)

theorem xlsx_OpenReader_drains_and_closes_witness:
  "readErr \<lparr>unread = [80, 75, 3], readErr = None, atEOF = False, closed = False, closeErr = None\<rparr> = None
   \<and> closeErr \<lparr>unread = [80, 75, 3], readErr = None, atEOF = False, closed = False, closeErr = None\<rparr> = None
   \<and> xlsx_OpenReader (\<lambda>data n. Inl (errors_New ''zip: not a valid zip file''))
        (\<lambda>d :: (unit, unit, unit) Document. (None, d)) (\<lambda>c. None)
        \<lparr>unread = [80, 75, 3], readErr = None, atEOF = False, closed = False, closeErr = None\<rparr>
      = (Inl (WrapErr (errors_New ''zip: not a valid zip file'') ErrNotInFormat),
         \<lparr>unread = [], readErr = None, atEOF = True, closed = True, closeErr = None\<rparr>)"
  using xlsx_OpenReader_drains_and_closes
    [of "\<lambda>data n. Inl (errors_New ''zip: not a valid zip file'')"
        "\<lambda>d :: (unit, unit, unit) Document. (None, d)" "\<lambda>c. None"
        "\<lparr>unread = [80, 75, 3], readErr = None, atEOF = False, closed = False, closeErr = None\<rparr>"
        "\<lparr>doc_f = None, doc_r = (), sheets = [], strings = [], xfs = []\<rparr>"
        "\<lparr>unread = [], readErr = None, atEOF = True, closed = True, closeErr = None\<rparr>"
        "errors_New ''zip: not a valid zip file''"]
  by simp

end
